theory Spec2Isabelle
  imports Main "HOL-Library.Word" "HOL-Library.Multiset"
begin

section \<open>The folder downloader of download-file-from-bucket\<close>

text \<open>
  A shallow embedding of package \<open>downloader\<close> (\<open>NewDownloader\<close>, \<open>DownloadFolder\<close>,
  \<open>downloadWorker\<close>, \<open>downloadObject\<close>), of the types of \<open>providers/provider.go\<close> it uses,
  and of the end of \<open>runClone\<close> in \<open>cmd/clone.go\<close>.

  Go strings are byte strings: \<open>string\<close>, with \<open>length\<close> for \<open>len\<close>. \<open>int64\<close> is
  \<open>64 word\<close>, so \<open>+=\<close> wraps as in Go. Go's \<open>int\<close> counters only count list elements
  and are \<open>int\<close>. A run-time panic is the value \<open>Panic\<close> of the type \<open>exec\<close>.
\<close>

subsection \<open>Panics, errors\<close>

datatype 'a exec = Panic | Done (result: 'a)

datatype errno = ENOENT | ENOTDIR | EISDIR

text \<open>
  \<open>PathError op errno\<close> is what the \<open>os\<close> package returns; \<open>Wrap msg e\<close> is
  \<open>fmt.Errorf(msg + ": %w", e)\<close>; \<open>RemoteError\<close> stands for whatever a provider or its
  stream reports; \<open>CompletedWithErrors n\<close> is \<open>fmt.Errorf("download completed with %d errors", n)\<close>.
\<close>

datatype error =
    PathError string errno
  | RemoteError string
  | Wrap string error
  | CompletedWithErrors nat

subsection \<open>Indexing and slicing a Go string\<close>

text \<open>\<open>s[i]\<close> and \<open>s[n:]\<close> with Go's bounds checks.\<close>

definition index :: "string \<Rightarrow> int \<Rightarrow> char exec" where
  "index s i = (if 0 \<le> i \<and> i < int (length s) then Done (s ! nat i) else Panic)"

definition slice_from :: "string \<Rightarrow> nat \<Rightarrow> string exec" where
  "slice_from s n = (if n \<le> length s then Done (drop n s) else Panic)"

subsection \<open>providers/provider.go\<close>

record Object =
  Key :: string
  Size :: "64 word"
  LastModified :: int
  ETag :: string
  ContentType :: string
  Metadata :: "(string \<times> string) list"

text \<open>
  \<open>DownloadProgress\<close>. Its fields \<open>Key\<close> and \<open>TotalBytes\<close> are written \<open>ProgressKey\<close> and
  \<open>ProgressTotalBytes\<close> here, the plain names being those of \<open>Object\<close> and \<open>DownloadResult\<close>.
\<close>

record DownloadProgress =
  ProgressKey :: string
  BytesDownloaded :: "64 word"
  ProgressTotalBytes :: "64 word"
  Error :: "error option"
  Completed :: bool

text \<open>
  What \<open>DownloadObject\<close> hands back: an \<open>io.ReadCloser\<close> that delivers \<open>content\<close> and then
  ends, with \<open>io.EOF\<close> when \<open>readError\<close> is \<open>None\<close> and with that error otherwise.
\<close>

record reader =
  content :: string
  readError :: "error option"

text \<open>The two methods of the \<open>Provider\<close> interface that the downloader calls.\<close>

record Provider =
  ListObjects :: "string \<Rightarrow> error + Object list"
  DownloadObject :: "string \<Rightarrow> error + reader"

subsection \<open>Path names: \<open>filepath.Clean\<close>, \<open>filepath.Join\<close>, \<open>filepath.Dir\<close>\<close>

text \<open>
  The Go library's functions on slash-separated names, after their documentation:
  \<open>Clean\<close> drops empty and \<open>.\<close> elements, cancels an inner \<open>..\<close> against the element
  before it, drops a \<open>..\<close> that begins a rooted path, and returns \<open>.\<close> for an empty result.
\<close>

fun splitOn :: "char \<Rightarrow> string \<Rightarrow> string list" where
  "splitOn sep [] = [[]]"
| "splitOn sep (c # cs) =
     (if c = sep then [] # splitOn sep cs
      else (case splitOn sep cs of
              [] \<Rightarrow> [[c]]
            | w # ws \<Rightarrow> (c # w) # ws))"

definition elements :: "string \<Rightarrow> string list" where
  "elements p = filter (\<lambda>e. e \<noteq> []) (splitOn (CHR ''/'') p)"

definition rooted :: "string \<Rightarrow> bool" where
  "rooted p = (case p of [] \<Rightarrow> False | c # _ \<Rightarrow> c = CHR ''/'')"

text \<open>The elements kept so far are held in reverse, the last one first.\<close>

fun normalise :: "bool \<Rightarrow> string list \<Rightarrow> string list \<Rightarrow> string list" where
  "normalise r kept [] = rev kept"
| "normalise r kept (e # es) =
     (if e = ''.'' then normalise r kept es
      else if e = ''..'' then
        (case kept of
           [] \<Rightarrow> if r then normalise r [] es else normalise r [''..''] es
         | t # ts \<Rightarrow> if t = ''..'' then normalise r (''..'' # kept) es else normalise r ts es)
      else normalise r (e # kept) es)"

definition resolve :: "string \<Rightarrow> bool \<times> string list" where
  "resolve p = (rooted p, normalise (rooted p) [] (elements p))"

fun joinWith :: "string \<Rightarrow> string list \<Rightarrow> string" where
  "joinWith sep [] = []"
| "joinWith sep [e] = e"
| "joinWith sep (e # es) = e @ sep @ joinWith sep es"

definition render :: "bool \<times> string list \<Rightarrow> string" where
  "render rc = (case rc of (r, cs) \<Rightarrow>
     (if r then ''/'' @ joinWith ''/'' cs
      else if cs = [] then ''.'' else joinWith ''/'' cs))"

definition Clean :: "string \<Rightarrow> string" where
  "Clean p = render (resolve p)"

text \<open>\<open>filepath.Join\<close> of two elements: empty elements are ignored, the result is cleaned,
  and two empty elements give the empty string.\<close>

definition Join :: "string \<Rightarrow> string \<Rightarrow> string" where
  "Join a b = (if a \<noteq> [] then Clean (a @ ''/'' @ b) else if b \<noteq> [] then Clean b else [])"

text \<open>\<open>filepath.Dir\<close>: everything up to the last separator, cleaned.\<close>

definition Dir :: "string \<Rightarrow> string" where
  "Dir p = Clean (rev (dropWhile (\<lambda>c. c \<noteq> CHR ''/'') (rev p)))"

subsection \<open>The local file system\<close>

text \<open>
  The disk is a map from cleaned names to nodes. Names are resolved lexically (no symbolic
  links, a fixed working directory); the root, the working directory and its ancestors
  (\<open>/\<close>, \<open>.\<close>, \<open>..\<close>, \<open>../..\<close>, ...) always exist as directories. The operations fail
  for the structural reasons only (a file where a directory is needed, a directory where a
  file is needed, a missing parent, an empty name); permissions, limits on the length of
  a name and a full disk are not modelled.
\<close>

datatype node = Directory | File string

type_synonym fs = "string \<Rightarrow> node option"

definition implicit :: "string \<Rightarrow> bool" where
  "implicit q = list_all (\<lambda>e. e = ''..'') (snd (resolve q))"

definition node_at :: "fs \<Rightarrow> string \<Rightarrow> node option" where
  "node_at disk q = (if implicit q then Some Directory else disk q)"

definition stat :: "fs \<Rightarrow> string \<Rightarrow> node option" where
  "stat disk name = node_at disk (Clean name)"

definition isFile :: "node option \<Rightarrow> bool" where
  "isFile n = (case n of Some (File _) \<Rightarrow> True | _ \<Rightarrow> False)"

text \<open>The cleaned name of every directory on the way to \<open>name\<close>, ending with \<open>name\<close>'s own.\<close>

definition chain :: "string \<Rightarrow> string list" where
  "chain name = (case resolve name of (r, cs) \<Rightarrow>
     map (\<lambda>n. render (r, take n cs)) [1..<Suc (length cs)])"

text \<open>
  \<open>os.MkdirAll\<close>: creates the directory and every missing parent; succeeds without a change
  if the directory exists; fails, creating nothing, when a name on the way is a file.
\<close>

definition MkdirAll :: "fs \<Rightarrow> string \<Rightarrow> error + fs" where
  "MkdirAll disk name =
     (if name = [] then Inl (PathError ''mkdir'' ENOENT)
      else if list_ex (\<lambda>q. isFile (node_at disk q)) (chain name)
        then Inl (PathError ''mkdir'' ENOTDIR)
      else Inr (\<lambda>q. if q \<in> set (chain name) \<and> node_at disk q = None
                     then Some Directory else disk q))"

text \<open>
  \<open>os.Create\<close>: opens the file for writing, creating it if it is missing and truncating it
  if it exists. The handle is the cleaned name.
\<close>

definition Create :: "fs \<Rightarrow> string \<Rightarrow> error + (fs \<times> string)" where
  "Create disk name =
     (if name = [] then Inl (PathError ''open'' ENOENT)
      else if stat disk name = Some Directory then Inl (PathError ''open'' EISDIR)
      else if stat disk (Dir name) = Some Directory
        then Inr (disk(Clean name \<mapsto> File []), Clean name)
      else if stat disk (Dir name) = None then Inl (PathError ''open'' ENOENT)
      else Inl (PathError ''open'' ENOTDIR))"

text \<open>A write through the handle appends to what the file holds.\<close>

definition writeBytes :: "fs \<Rightarrow> string \<Rightarrow> string \<Rightarrow> fs" where
  "writeBytes disk handle bytes =
     (case disk handle of
        Some (File old) \<Rightarrow> disk(handle \<mapsto> File (old @ bytes))
      | _ \<Rightarrow> disk)"

text \<open>\<open>io.Copy(file, reader)\<close>: writes what the reader delivers, and returns the reader's
  error if it ended with one.\<close>

definition Copy :: "fs \<Rightarrow> string \<Rightarrow> reader \<Rightarrow> fs \<times> error option" where
  "Copy disk handle rd = (writeBytes disk handle (content rd), readError rd)"

subsection \<open>downloader: types and constructor\<close>

record Downloader =
  provider :: Provider
  concurrency :: int
  verbose :: bool

record Options =
  Concurrency :: int
  Verbose :: bool

definition NewDownloader :: "Provider \<Rightarrow> Options \<Rightarrow> Downloader" where
  "NewDownloader p opts =
     \<lparr>provider = p,
      concurrency = (if Concurrency opts \<le> 0 then 5 else Concurrency opts),
      verbose = Verbose opts\<rparr>"

record DownloadResult =
  TotalFiles :: int
  SuccessfulFiles :: int
  FailedFiles :: int
  TotalBytes :: "64 word"
  Duration :: int
  Errors :: "error list"

text \<open>The zero value \<open>&DownloadResult{}\<close>.\<close>

definition emptyResult :: DownloadResult where
  "emptyResult =
     \<lparr>TotalFiles = 0, SuccessfulFiles = 0, FailedFiles = 0, TotalBytes = 0,
      Duration = 0, Errors = []\<rparr>"

subsection \<open>downloadObject\<close>

text \<open>The local variable \<open>relativePath\<close> of \<open>downloadObject\<close>, as its first lines compute it.\<close>

definition relativePath :: "string \<Rightarrow> string \<Rightarrow> string exec" where
  "relativePath key prefix =
     (if prefix \<noteq> [] \<and> length key > length prefix then
        (case slice_from key (length prefix) of
           Panic \<Rightarrow> Panic
         | Done rel \<Rightarrow>
             (case index rel 0 of
                Panic \<Rightarrow> Panic
              | Done c \<Rightarrow> if c = CHR ''/'' then slice_from rel 1 else Done rel))
      else Done key)"

text \<open>The local variable \<open>localPath\<close>.\<close>

definition localPath :: "string \<Rightarrow> string \<Rightarrow> string \<Rightarrow> string exec" where
  "localPath localDir key prefix =
     (case relativePath key prefix of
        Panic \<Rightarrow> Panic
      | Done rel \<Rightarrow> Done (Join localDir rel))"

text \<open>
  \<open>downloadObject\<close> returns its error (\<open>None\<close> for nil) and the disk it leaves. The
  messages printed when \<open>verbose\<close> is set are not part of the model.
\<close>

definition downloadObject ::
    "Downloader \<Rightarrow> Object \<Rightarrow> string \<Rightarrow> string \<Rightarrow> fs \<Rightarrow> (error option \<times> fs) exec" where
  "downloadObject d obj prefix localDir disk =
     (case localPath localDir (Key obj) prefix of
        Panic \<Rightarrow> Panic
      | Done path \<Rightarrow>
         (case index (Key obj) (int (length (Key obj)) - 1) of
            Panic \<Rightarrow> Panic
          | Done c \<Rightarrow>
             if c = CHR ''/'' then
               (case MkdirAll disk path of
                  Inl e \<Rightarrow> Done (Some e, disk)
                | Inr disk1 \<Rightarrow> Done (None, disk1))
             else
               (case MkdirAll disk (Dir path) of
                  Inl e \<Rightarrow>
                    Done (Some (Wrap (''failed to create directory for '' @ path) e), disk)
                | Inr disk1 \<Rightarrow>
                   (case DownloadObject (provider d) (Key obj) of
                      Inl e \<Rightarrow> Done (Some e, disk1)
                    | Inr rd \<Rightarrow>
                       (case Create disk1 path of
                          Inl e \<Rightarrow>
                            Done (Some (Wrap (''failed to create local file '' @ path) e), disk1)
                        | Inr (disk2, file) \<Rightarrow>
                           (case Copy disk2 file rd of
                              (disk3, Some e) \<Rightarrow>
                                Done (Some (Wrap (''failed to write data to '' @ path) e), disk3)
                            | (disk3, None) \<Rightarrow> Done (None, disk3)))))))"

subsection \<open>downloadWorker\<close>

text \<open>One turn of the worker's loop: the progress value sent on \<open>results\<close>.\<close>

definition workerStep ::
    "Downloader \<Rightarrow> Object \<Rightarrow> string \<Rightarrow> string \<Rightarrow> fs \<Rightarrow> (DownloadProgress \<times> fs) exec" where
  "workerStep d obj prefix localDir disk =
     (let progress = \<lparr>ProgressKey = Key obj, BytesDownloaded = 0,
                      ProgressTotalBytes = Size obj, Error = None, Completed = False\<rparr> in
      case downloadObject d obj prefix localDir disk of
        Panic \<Rightarrow> Panic
      | Done (Some err, disk') \<Rightarrow> Done (progress\<lparr>Error := Some err\<rparr>, disk')
      | Done (None, disk') \<Rightarrow>
          Done (progress\<lparr>BytesDownloaded := Size obj, Completed := True\<rparr>, disk'))"

text \<open>\<open>for obj := range jobs\<close>: the values sent on \<open>results\<close>, in order, and the disk left.\<close>

fun downloadWorker ::
    "Downloader \<Rightarrow> Object list \<Rightarrow> string \<Rightarrow> string \<Rightarrow> fs \<Rightarrow> (DownloadProgress list \<times> fs) exec"
where
  "downloadWorker d [] prefix localDir disk = Done ([], disk)"
| "downloadWorker d (obj # jobs) prefix localDir disk =
     (case workerStep d obj prefix localDir disk of
        Panic \<Rightarrow> Panic
      | Done (progress, disk1) \<Rightarrow>
         (case downloadWorker d jobs prefix localDir disk1 of
            Panic \<Rightarrow> Panic
          | Done (sent, disk2) \<Rightarrow> Done (progress # sent, disk2)))"

subsection \<open>The worker pool\<close>

text \<open>
  \<open>DownloadFolder\<close> starts \<open>concurrency\<close> workers on one buffered channel that holds the
  listing in order. With \<open>k\<close> workers the jobs in flight are the first \<open>k\<close> not yet finished;
  which of them finishes next is the scheduler's choice. \<open>interleave k choices jobs\<close> is the
  order in which the jobs finish when the scheduler's choices are \<open>choices\<close> (one number per
  step, read modulo the number of jobs in flight; when they run out the oldest job
  finishes first). Each \<open>downloadObject\<close> call is taken as one step, so the model
  does not show two workers writing one file at the same time: what is stated below about
  the files on the disk is stated for listings whose keys map to different files. No
  worker at all (\<open>k = 0\<close>) finishes no job.
\<close>

fun interleave :: "nat \<Rightarrow> nat list \<Rightarrow> 'a list \<Rightarrow> 'a list" where
  "interleave k choices [] = []"
| "interleave k [] (j # jobs) = (if k = 0 then [] else j # jobs)"
| "interleave k (c # choices) (j # jobs) =
     (if k = 0 then []
      else (let i = c mod (min k (length (j # jobs))) in
            (j # jobs) ! i # interleave k choices (take i (j # jobs) @ drop (Suc i) (j # jobs))))"

subsection \<open>DownloadFolder\<close>

text \<open>The body of the loop over \<open>results\<close>, without the call of the callback.\<close>

definition collect :: "DownloadResult \<Rightarrow> DownloadProgress \<Rightarrow> DownloadResult" where
  "collect res progress =
     (let res1 = res\<lparr>TotalFiles := TotalFiles res + 1,
                     TotalBytes := TotalBytes res + ProgressTotalBytes progress\<rparr> in
      case Error progress of
        Some err \<Rightarrow> res1\<lparr>FailedFiles := FailedFiles res1 + 1, Errors := Errors res1 @ [err]\<rparr>
      | None \<Rightarrow> res1\<lparr>SuccessfulFiles := SuccessfulFiles res1 + 1\<rparr>)"

text \<open>
  What a call of \<open>DownloadFolder\<close> does: it panics (a panic in a worker goroutine ends the
  process), or it returns its two results. \<open>retDisk\<close> is the disk it leaves and
  \<open>retEvents\<close> the progress values it received, in the order of arrival, which is also the
  order in which a non-nil \<open>progressCallback\<close> is called on them.
\<close>

datatype outcome =
    is_Panicked: Panicked
  | is_Returned: Returned (retResult: "DownloadResult option") (retError: "error option")
             (retDisk: fs) (retEvents: "DownloadProgress list")

text \<open>
  \<open>choices\<close> is the scheduler's part (see \<open>interleave\<close>) and \<open>elapsed\<close> the value of
  \<open>time.Since(startTime)\<close> at the return.
\<close>

definition DownloadFolder ::
    "Downloader \<Rightarrow> string \<Rightarrow> string \<Rightarrow> nat list \<Rightarrow> int \<Rightarrow> fs \<Rightarrow> outcome" where
  "DownloadFolder d prefix localDir choices elapsed disk =
     (case ListObjects (provider d) prefix of
        Inl err \<Rightarrow> Returned None (Some (Wrap ''failed to list objects'' err)) disk []
      | Inr objects \<Rightarrow>
         if length objects = 0 then
           Returned (Some (emptyResult\<lparr>Duration := elapsed\<rparr>)) None disk []
         else
           (case MkdirAll disk localDir of
              Inl err \<Rightarrow>
                Returned None (Some (Wrap ''failed to create local directory'' err)) disk []
            | Inr disk1 \<Rightarrow>
               (case downloadWorker d (interleave (nat (concurrency d)) choices objects)
                       prefix localDir disk1 of
                  Panic \<Rightarrow> Panicked
                | Done (events, disk2) \<Rightarrow>
                    Returned (Some ((foldl collect emptyResult events)\<lparr>Duration := elapsed\<rparr>))
                      None disk2 events)))"

subsection \<open>cmd/clone.go: what \<open>runClone\<close> returns after \<open>DownloadFolder\<close>\<close>

definition runClone_finish :: "DownloadResult option \<Rightarrow> error option \<Rightarrow> error option" where
  "runClone_finish res err =
     (case err of
        Some e \<Rightarrow> Some (Wrap ''download failed'' e)
      | None \<Rightarrow>
         (case res of
            None \<Rightarrow> None
          | Some r \<Rightarrow>
              if length (Errors r) > 0 then Some (CompletedWithErrors (length (Errors r)))
              else None))"

section \<open>The specification's path mapper, and scenarios\<close>

text \<open>
  The path mapper as the specification words it: when the key is longer than the prefix,
  the key without its first \<open>len(prefix)\<close> characters and without one leading slash;
  the key otherwise.
\<close>

definition strip_one_slash :: "string \<Rightarrow> string" where
  "strip_one_slash s = (case s of [] \<Rightarrow> [] | c # cs \<Rightarrow> if c = CHR ''/'' then cs else s)"

definition relativePath_spec :: "string \<Rightarrow> string \<Rightarrow> string" where
  "relativePath_spec key prefix =
     (if length key > length prefix then strip_one_slash (drop (length prefix) key) else key)"

text \<open>
  An object as \<open>S3Provider.ListObjects\<close> builds it, the fields that the downloader does
  not read left at their zero values.
\<close>

definition mkObject :: "string \<Rightarrow> 64 word \<Rightarrow> Object" where
  "mkObject key bytes =
     \<lparr>Key = key, Size = bytes, LastModified = 0, ETag = [], ContentType = [], Metadata = []\<rparr>"

text \<open>
  Scenario B of the specification: two objects under \<open>d/\<close>, the fetch of the second
  fails; the default five workers, an empty disk.
\<close>

definition listingB :: "Object list" where
  "listingB = [mkObject ''d/a.txt'' 10, mkObject ''d/b.txt'' 20]"

definition providerB :: Provider where
  "providerB =
     \<lparr>ListObjects = (\<lambda>prefix. Inr listingB),
      DownloadObject = (\<lambda>key. if key = ''d/a.txt''
                               then Inr \<lparr>content = ''0123456789'', readError = None\<rparr>
                               else Inl (RemoteError ''fetch failed''))\<rparr>"

definition defaultOptions :: Options where
  "defaultOptions = \<lparr>Concurrency = 0, Verbose = False\<rparr>"

definition runB :: outcome where
  "runB = DownloadFolder (NewDownloader providerB defaultOptions) ''d/'' ''/out'' [] 7 Map.empty"

definition eventsB :: "DownloadProgress list" where
  "eventsB =
     [\<lparr>ProgressKey = ''d/a.txt'', BytesDownloaded = 10, ProgressTotalBytes = 10,
       Error = None, Completed = True\<rparr>,
      \<lparr>ProgressKey = ''d/b.txt'', BytesDownloaded = 0, ProgressTotalBytes = 20,
       Error = Some (RemoteError ''fetch failed''), Completed = False\<rparr>]"

definition resultB :: DownloadResult where
  "resultB =
     \<lparr>TotalFiles = 2, SuccessfulFiles = 1, FailedFiles = 1, TotalBytes = 30, Duration = 7,
      Errors = [RemoteError ''fetch failed'']\<rparr>"

text \<open>The specification's total: the sizes of the objects whose event is completed.\<close>

definition completedBytes :: "DownloadProgress list \<Rightarrow> 64 word" where
  "completedBytes events = sum_list (map ProgressTotalBytes (filter Completed events))"


text \<open>A provider with nothing under the prefix, and one whose listing fails.\<close>

definition providerEmpty :: Provider where
  "providerEmpty =
     \<lparr>ListObjects = (\<lambda>prefix. Inr []),
      DownloadObject = (\<lambda>key. Inl (RemoteError ''no such key''))\<rparr>"

definition providerDown :: Provider where
  "providerDown =
     \<lparr>ListObjects = (\<lambda>prefix. Inl (RemoteError ''access denied'')),
      DownloadObject = (\<lambda>key. Inl (RemoteError ''access denied''))\<rparr>"

text \<open>A disk on which the destination \<open>/out\<close> is a file.\<close>

definition diskOutIsFile :: fs where
  "diskOutIsFile = [''/out'' \<mapsto> File ''x'']"

text \<open>
  Confinement to a directory, for the statements below: \<open>within root p\<close> holds when the
  cleaned \<open>p\<close> is \<open>root\<close> or lies under it.
\<close>

definition within :: "string \<Rightarrow> string \<Rightarrow> bool" where
  "within root p =
     (case resolve root of (r, cs) \<Rightarrow>
      case resolve p of (r', cs') \<Rightarrow>
        r = r' \<and> take (length cs) cs' = cs
        \<and> (case drop (length cs) cs' of [] \<Rightarrow> True | e # _ \<Rightarrow> e \<noteq> ''..''))"




text \<open>A disk that holds the destination \<open>/out\<close> only, and a key that climbs out of it.\<close>

definition diskOut :: fs where
  "diskOut = [''/out'' \<mapsto> Directory]"

definition providerEscape :: Provider where
  "providerEscape =
     \<lparr>ListObjects = (\<lambda>prefix. Inr [mkObject ''photos/../../etc/passwd'' 4]),
      DownloadObject = (\<lambda>key. Inr \<lparr>content = ''root'', readError = None\<rparr>)\<rparr>"










section \<open>Properties\<close>

subsection \<open>Indexing and the path mapper\<close>

lemma index_last: "s \<noteq> [] \<Longrightarrow> index s (int (length s) - 1) = Done (last s)"
  by (cases s rule: rev_cases) (simp_all add: index_def nat_diff_distrib' nth_append)

lemma index_empty: "index [] i = Panic"
  by (simp add: index_def)

lemma index_head: "index (c # cs) 0 = Done c"
  by (simp add: index_def)

lemma relativePath_Done:
  "relativePath key prefix =
     Done (if prefix \<noteq> [] \<and> length key > length prefix
           then strip_one_slash (drop (length prefix) key) else key)"
proof (cases "prefix \<noteq> [] \<and> length key > length prefix")
  case True
  then obtain c cs where rel: "drop (length prefix) key = c # cs"
    by (cases "drop (length prefix) key") auto
  from True rel show ?thesis
    by (simp add: relativePath_def slice_from_def index_head strip_one_slash_def)
next
  case False
  then show ?thesis by (auto simp add: relativePath_def)
qed

text \<open>
  Claim C5, as amended. With a non-empty prefix the code computes the specification's path
  mapper: a key longer than the prefix loses its first \<open>len(prefix)\<close> characters and
  then one leading slash if there is one, any other key is returned unchanged. With the
  empty prefix the key is returned unchanged, whatever it starts with. No index or slice
  of the computation is out of range. \<open>photos/2020/a.jpg\<close> under \<open>photos/\<close> maps to
  \<open>2020/a.jpg\<close>.
\<close>

theorem relativePath_guarded:
  "relativePath key prefix = Done (if prefix = [] then key else relativePath_spec key prefix)
   \<and> relativePath ''photos/2020/a.jpg'' ''photos/'' = Done ''2020/a.jpg''"
  by (simp add: relativePath_Done relativePath_spec_def strip_one_slash_def)

text \<open>
  Claim C5 as stated fails for the empty prefix: the key \<open>/a\<close> is longer than the
  prefix, and keeps its leading slash.
\<close>

theorem relativePath_empty_prefix_counterexample:
  "length ''/a'' > length '''' \<and> relativePath ''/a'' '''' \<noteq> Done (relativePath_spec ''/a'' '''')"
  by (simp add: relativePath_Done relativePath_spec_def strip_one_slash_def)

lemma localPath_Done:
  "localPath localDir key prefix =
     Done (Join localDir (if prefix \<noteq> [] \<and> length key > length prefix
                          then strip_one_slash (drop (length prefix) key) else key))"
  by (simp add: localPath_def relativePath_Done)

lemma downloadObject_Panic_iff:
  "(downloadObject d obj prefix localDir disk = Panic) = (Key obj = [])"
  by (cases "Key obj = []")
     (auto simp add: downloadObject_def localPath_Done index_last index_empty
           split: sum.splits prod.splits option.splits)

lemma workerStep_Panic_iff:
  "(workerStep d obj prefix localDir disk = Panic) = (Key obj = [])"
proof (cases "downloadObject d obj prefix localDir disk")
  case Panic
  with downloadObject_Panic_iff [of d obj prefix localDir disk] show ?thesis
    by (simp add: workerStep_def)
next
  case (Done x)
  with downloadObject_Panic_iff [of d obj prefix localDir disk] have "Key obj \<noteq> []"
    by simp
  with Done show ?thesis
    by (simp add: workerStep_def Let_def split: prod.splits option.splits)
qed

text \<open>
  Claim C9. \<open>downloadObject\<close> reads the key at \<open>len(key) - 1\<close>. For a non-empty key
  the read is in range (it yields the last byte) and \<open>downloadObject\<close> does not panic;
  for the empty key the read is out of range, and \<open>downloadObject\<close> and the worker's
  turn panic.
\<close>

theorem key_index_bounds:
  "(Key obj \<noteq> [] \<longrightarrow>
      index (Key obj) (int (length (Key obj)) - 1) = Done (last (Key obj))
      \<and> downloadObject d obj prefix localDir disk \<noteq> Panic)
   \<and> (Key obj = [] \<longrightarrow>
      index (Key obj) (int (length (Key obj)) - 1) = Panic
      \<and> downloadObject d obj prefix localDir disk = Panic
      \<and> workerStep d obj prefix localDir disk = Panic)"
  by (simp add: downloadObject_Panic_iff index_last index_empty workerStep_Panic_iff)

theorem key_index_bounds_witness:
  "Key (mkObject ''d/a.txt'' 10) \<noteq> []
   \<and> index ''d/a.txt'' 6 = Done (CHR ''t'')
   \<and> downloadObject (NewDownloader providerB defaultOptions) (mkObject ''d/a.txt'' 10)
         ''d/'' ''/out'' Map.empty \<noteq> Panic
   \<and> Key (mkObject [] 10) = []
   \<and> index [] (- 1) = Panic
   \<and> downloadObject (NewDownloader providerB defaultOptions) (mkObject [] 10)
         ''d/'' ''/out'' Map.empty = Panic
   \<and> workerStep (NewDownloader providerB defaultOptions) (mkObject [] 10)
         ''d/'' ''/out'' Map.empty = Panic"
  using key_index_bounds [of "mkObject ''d/a.txt'' 10" "NewDownloader providerB defaultOptions"
          "''d/''" "''/out''" Map.empty]
        key_index_bounds [of "mkObject [] 10" "NewDownloader providerB defaultOptions"
          "''d/''" "''/out''" Map.empty]
  by (simp add: mkObject_def)

subsection \<open>The returns of \<open>DownloadFolder\<close> before any worker starts\<close>

text \<open>
  Claim C7. When the listing succeeds and is empty, \<open>DownloadFolder\<close> returns the zero
  result with only \<open>Duration\<close> set, and a nil error; it leaves the disk as it found it
  (the destination directory is not created) and no progress value was produced.
\<close>

theorem empty_listing:
  "ListObjects (provider d) prefix = Inr [] \<Longrightarrow>
   DownloadFolder d prefix localDir choices elapsed disk =
     Returned (Some \<lparr>TotalFiles = 0, SuccessfulFiles = 0, FailedFiles = 0, TotalBytes = 0,
                      Duration = elapsed, Errors = []\<rparr>) None disk []"
  by (simp add: DownloadFolder_def emptyResult_def)

theorem empty_listing_witness:
  "ListObjects (provider (NewDownloader providerEmpty defaultOptions)) ''d/'' = Inr []
   \<and> DownloadFolder (NewDownloader providerEmpty defaultOptions) ''d/'' ''/out'' [] 7 Map.empty =
     Returned (Some \<lparr>TotalFiles = 0, SuccessfulFiles = 0, FailedFiles = 0, TotalBytes = 0,
                      Duration = 7, Errors = []\<rparr>) None Map.empty []"
proof -
  have listing: "ListObjects (provider (NewDownloader providerEmpty defaultOptions)) ''d/'' = Inr []"
    by (simp add: NewDownloader_def providerEmpty_def)
  from listing empty_listing [OF listing, of "''/out''" "[]" 7 Map.empty] show ?thesis
    by simp
qed

text \<open>
  Claim C6. When \<open>ListObjects\<close> fails, and when the listing is non-empty and the
  destination directory cannot be created, \<open>DownloadFolder\<close> returns a nil result and
  the wrapped error; the disk is as it was found and no progress value was produced: no
  job was taken by a worker.
\<close>

theorem fatal_errors:
  "(ListObjects (provider d) prefix = Inl err \<longrightarrow>
      DownloadFolder d prefix localDir choices elapsed disk =
        Returned None (Some (Wrap ''failed to list objects'' err)) disk [])
   \<and> (ListObjects (provider d) prefix = Inr objects \<and> objects \<noteq> []
       \<and> MkdirAll disk localDir = Inl err \<longrightarrow>
      DownloadFolder d prefix localDir choices elapsed disk =
        Returned None (Some (Wrap ''failed to create local directory'' err)) disk [])"
  by (simp add: DownloadFolder_def)

lemma chain_out: "chain ''/out'' = [''/out'']"
  by code_simp

lemma implicit_out: "\<not> implicit ''/out''"
  by code_simp

lemma MkdirAll_diskOutIsFile: "MkdirAll diskOutIsFile ''/out'' = Inl (PathError ''mkdir'' ENOTDIR)"
  by (simp add: MkdirAll_def chain_out node_at_def implicit_out isFile_def diskOutIsFile_def)

theorem fatal_errors_witness:
  "ListObjects (provider (NewDownloader providerDown defaultOptions)) ''d/''
     = Inl (RemoteError ''access denied'')
   \<and> DownloadFolder (NewDownloader providerDown defaultOptions) ''d/'' ''/out'' [] 7 Map.empty =
       Returned None (Some (Wrap ''failed to list objects'' (RemoteError ''access denied'')))
         Map.empty []
   \<and> ListObjects (provider (NewDownloader providerB defaultOptions)) ''d/'' = Inr listingB
   \<and> listingB \<noteq> []
   \<and> MkdirAll diskOutIsFile ''/out'' = Inl (PathError ''mkdir'' ENOTDIR)
   \<and> DownloadFolder (NewDownloader providerB defaultOptions) ''d/'' ''/out'' [] 7 diskOutIsFile =
       Returned None (Some (Wrap ''failed to create local directory'' (PathError ''mkdir'' ENOTDIR)))
         diskOutIsFile []"
proof -
  have down: "ListObjects (provider (NewDownloader providerDown defaultOptions)) ''d/''
                = Inl (RemoteError ''access denied'')"
    by (simp add: NewDownloader_def providerDown_def)
  have listing: "ListObjects (provider (NewDownloader providerB defaultOptions)) ''d/'' = Inr listingB"
    by (simp add: NewDownloader_def providerB_def)
  have nonempty: "listingB \<noteq> []"
    by (simp add: listingB_def)
  from fatal_errors [of "NewDownloader providerDown defaultOptions" "''d/''"
         "RemoteError ''access denied''" "''/out''" "[]" 7 Map.empty] down
  have first: "DownloadFolder (NewDownloader providerDown defaultOptions) ''d/'' ''/out'' [] 7 Map.empty =
       Returned None (Some (Wrap ''failed to list objects'' (RemoteError ''access denied'')))
         Map.empty []"
    by simp
  from fatal_errors [of "NewDownloader providerB defaultOptions" "''d/''"
         "PathError ''mkdir'' ENOTDIR" "''/out''" "[]" 7 diskOutIsFile listingB]
       listing nonempty MkdirAll_diskOutIsFile
  have second: "DownloadFolder (NewDownloader providerB defaultOptions) ''d/'' ''/out'' [] 7 diskOutIsFile =
       Returned None (Some (Wrap ''failed to create local directory'' (PathError ''mkdir'' ENOTDIR)))
         diskOutIsFile []"
    by simp
  from down first listing nonempty MkdirAll_diskOutIsFile second show ?thesis
    by simp
qed

subsection \<open>Aggregation\<close>

lemma collect_TotalFiles: "TotalFiles (collect r p) = TotalFiles r + 1"
  by (simp add: collect_def Let_def split: option.splits)

lemma collect_TotalBytes: "TotalBytes (collect r p) = TotalBytes r + ProgressTotalBytes p"
  by (simp add: collect_def Let_def split: option.splits)

lemma collect_FailedFiles:
  "FailedFiles (collect r p) = FailedFiles r + (if Error p = None then 0 else 1)"
  by (simp add: collect_def Let_def split: option.splits)

lemma collect_SuccessfulFiles:
  "SuccessfulFiles (collect r p) = SuccessfulFiles r + (if Error p = None then 1 else 0)"
  by (simp add: collect_def Let_def split: option.splits)

lemma collect_Errors:
  "Errors (collect r p) = Errors r @ (case Error p of None \<Rightarrow> [] | Some e \<Rightarrow> [e])"
  by (simp add: collect_def Let_def split: option.splits)

lemma foldl_collect_TotalFiles:
  "TotalFiles (foldl collect r events) = TotalFiles r + int (length events)"
  by (induction events arbitrary: r) (simp_all add: collect_TotalFiles)

lemma foldl_collect_TotalBytes:
  "TotalBytes (foldl collect r events) = TotalBytes r + sum_list (map ProgressTotalBytes events)"
  by (induction events arbitrary: r) (simp_all add: collect_TotalBytes add.assoc)

lemma foldl_collect_FailedFiles:
  "FailedFiles (foldl collect r events) =
     FailedFiles r + int (length (filter (\<lambda>p. Error p \<noteq> None) events))"
  by (induction events arbitrary: r) (simp_all add: collect_FailedFiles)

lemma foldl_collect_SuccessfulFiles:
  "SuccessfulFiles (foldl collect r events) =
     SuccessfulFiles r + int (length (filter (\<lambda>p. Error p = None) events))"
  by (induction events arbitrary: r) (simp_all add: collect_SuccessfulFiles)

lemma foldl_collect_Errors:
  "Errors (foldl collect r events) = Errors r @ List.map_filter Error events"
  by (induction events arbitrary: r)
     (simp_all add: collect_Errors List.map_filter_simps split: option.splits)

lemma length_filter_split:
  "length (filter (\<lambda>p. Error p = None) events) + length (filter (\<lambda>p. Error p \<noteq> None) events)
     = length events"
  using sum_length_filter_compl [of "\<lambda>p. Error p = None" events] by simp

subsection \<open>The worker loop\<close>

lemma workerStep_Done:
  "workerStep d obj prefix localDir disk = Done (p, disk') \<Longrightarrow>
   ProgressKey p = Key obj \<and> ProgressTotalBytes p = Size obj
   \<and> Completed p = (Error p = None)
   \<and> BytesDownloaded p = (if Error p = None then Size obj else 0)"
  by (auto simp add: workerStep_def Let_def split: exec.splits prod.splits option.splits)

lemma downloadWorker_events:
  "downloadWorker d jobs prefix localDir disk = Done (events, disk') \<Longrightarrow>
   map ProgressKey events = map Key jobs \<and> map ProgressTotalBytes events = map Size jobs"
proof (induction jobs arbitrary: disk events)
  case Nil
  then show ?case by simp
next
  case (Cons obj jobs)
  then show ?case
    by (auto split: exec.splits prod.splits dest: workerStep_Done)
qed

lemma downloadWorker_Panic_iff:
  "(downloadWorker d jobs prefix localDir disk = Panic) = (\<exists>obj \<in> set jobs. Key obj = [])"
proof (induction jobs arbitrary: disk)
  case Nil
  then show ?case by simp
next
  case (Cons obj jobs)
  show ?case
  proof (cases "workerStep d obj prefix localDir disk")
    case Panic
    with workerStep_Panic_iff [of d obj prefix localDir disk] show ?thesis
      by simp
  next
    case (Done x)
    with workerStep_Panic_iff [of d obj prefix localDir disk] have key: "Key obj \<noteq> []"
      by simp
    obtain p disk1 where x: "x = (p, disk1)" by (cases x)
    from Cons [of disk1] key Done x show ?thesis
      by (cases "downloadWorker d jobs prefix localDir disk1") auto
  qed
qed

subsection \<open>The pool\<close>

lemma mset_remove_nth:
  "i < length xs \<Longrightarrow> add_mset (xs ! i) (mset (take i xs @ drop (Suc i) xs)) = mset xs"
  by (metis id_take_nth_drop mset.simps(2) mset_append union_mset_add_mset_right)

lemma mset_interleave: "0 < k \<Longrightarrow> mset (interleave k choices jobs) = mset jobs"
proof (induction k choices jobs rule: interleave.induct)
  case (1 k choices)
  then show ?case by simp
next
  case (2 k j jobs)
  then show ?case by simp
next
  case (3 k c choices j jobs)
  define i where "i = c mod min k (length (j # jobs))"
  have "0 < min k (length (j # jobs))"
    using 3(2) by simp
  then have "i < min k (length (j # jobs))"
    unfolding i_def by (rule mod_less_divisor)
  then have lt: "i < length (j # jobs)"
    by simp
  from 3(1) [of i] 3(2)
  have "mset (interleave k choices (take i (j # jobs) @ drop (Suc i) (j # jobs)))
        = mset (take i (j # jobs) @ drop (Suc i) (j # jobs))"
    by (simp add: i_def)
  with mset_remove_nth [OF lt] 3(2)
  have "mset ((j # jobs) ! i # interleave k choices (take i (j # jobs) @ drop (Suc i) (j # jobs)))
        = mset (j # jobs)"
    by simp
  moreover have "interleave k (c # choices) (j # jobs)
        = (j # jobs) ! i # interleave k choices (take i (j # jobs) @ drop (Suc i) (j # jobs))"
    using 3(2) by (simp add: i_def Let_def)
  ultimately show ?case by simp
qed

lemma interleave_serial: "interleave (Suc 0) choices jobs = jobs"
  by (induction "Suc 0" choices jobs rule: interleave.induct) simp_all

lemma concurrency_NewDownloader: "0 < nat (concurrency (NewDownloader p opts))"
  by (simp add: NewDownloader_def)

lemma provider_NewDownloader: "provider (NewDownloader p opts) = p"
  by (simp add: NewDownloader_def)


lemma runB_returns: "runB = Returned (Some resultB) None (retDisk runB) eventsB"
proof -
  have "is_Returned runB" by code_simp
  moreover have "retResult runB = Some resultB" by code_simp
  moreover have "retError runB = None" by code_simp
  moreover have "retEvents runB = eventsB" by code_simp
  ultimately show ?thesis by (metis outcome.collapse)
qed

lemma DownloadFolder_Returned_Some:
  assumes "DownloadFolder d prefix localDir choices elapsed disk = Returned (Some r) err disk' events"
  shows "err = None \<and> r = (foldl collect emptyResult events)\<lparr>Duration := elapsed\<rparr>
         \<and> (\<exists>objects. ListObjects (provider d) prefix = Inr objects
              \<and> (if objects = [] then events = [] \<and> disk' = disk
                  else \<exists>disk1. MkdirAll disk localDir = Inr disk1
                        \<and> downloadWorker d (interleave (nat (concurrency d)) choices objects)
                             prefix localDir disk1 = Done (events, disk')))"
  using assms
  by (auto simp add: DownloadFolder_def split: sum.splits if_splits exec.splits prod.splits)

lemma sum_list_map_mset:
  fixes f :: "'a \<Rightarrow> 'b::comm_monoid_add"
  shows "mset xs = mset ys \<Longrightarrow> sum_list (map f xs) = sum_list (map f ys)"
  by (metis mset_map sum_mset_sum_list)

lemma DownloadFolder_events:
  assumes "ListObjects p prefix = Inr objects"
      and "DownloadFolder (NewDownloader p opts) prefix localDir choices elapsed disk
             = Returned (Some r) err disk' events"
  shows "mset (map ProgressKey events) = mset (map Key objects)"
    and "sum_list (map ProgressTotalBytes events) = sum_list (map Size objects)"
    and "length events = length objects"
proof -
  let ?d = "NewDownloader p opts"
  let ?jobs = "interleave (nat (concurrency ?d)) choices objects"
  from DownloadFolder_Returned_Some [OF assms(2)] assms(1)
  have run: "if objects = [] then events = []
             else \<exists>disk1. downloadWorker ?d ?jobs prefix localDir disk1 = Done (events, disk')"
    by (auto simp add: provider_NewDownloader split: if_splits)
  have perm: "mset ?jobs = mset objects"
    by (rule mset_interleave [OF concurrency_NewDownloader])
  have "map ProgressKey events = map Key ?jobs \<and> map ProgressTotalBytes events = map Size ?jobs"
  proof (cases "objects = []")
    case True
    with run show ?thesis by simp
  next
    case False
    with run obtain disk1 where "downloadWorker ?d ?jobs prefix localDir disk1 = Done (events, disk')"
      by auto
    then show ?thesis by (rule downloadWorker_events)
  qed
  then have keys: "map ProgressKey events = map Key ?jobs"
    and sizes: "map ProgressTotalBytes events = map Size ?jobs"
    by simp_all
  from perm have "mset (map Key ?jobs) = mset (map Key objects)"
    by (metis mset_map)
  with keys show "mset (map ProgressKey events) = mset (map Key objects)" by simp
  from sizes sum_list_map_mset [OF perm, of Size]
  show "sum_list (map ProgressTotalBytes events) = sum_list (map Size objects)" by simp
  from keys have "length events = length ?jobs"
    by (metis length_map)
  with perm show "length events = length objects"
    by (metis size_mset)
qed

subsection \<open>When \<open>DownloadFolder\<close> returns\<close>

lemma interleave_no_worker: "interleave 0 choices jobs = []"
  by (cases jobs; cases choices) simp_all

lemma set_interleave: "set (interleave k choices jobs) \<subseteq> set jobs"
proof (cases "k = 0")
  case True
  then show ?thesis by (simp add: interleave_no_worker)
next
  case False
  then have "mset (interleave k choices jobs) = mset jobs"
    by (simp add: mset_interleave)
  then show ?thesis
    by (metis mset_eq_setD subset_refl)
qed

lemma DownloadFolder_returns:
  assumes "\<forall>objects. ListObjects (provider d) prefix = Inr objects
             \<longrightarrow> (\<forall>obj \<in> set objects. Key obj \<noteq> [])"
  shows "is_Returned (DownloadFolder d prefix localDir choices elapsed disk)"
proof (cases "ListObjects (provider d) prefix")
  case (Inl e)
  then show ?thesis by (simp add: DownloadFolder_def)
next
  case (Inr objects)
  with assms have keys: "\<forall>obj \<in> set objects. Key obj \<noteq> []"
    by simp
  have "downloadWorker d (interleave (nat (concurrency d)) choices objects) prefix localDir disk1
          \<noteq> Panic" for disk1
    using keys set_interleave [of "nat (concurrency d)" choices objects]
    by (auto simp add: downloadWorker_Panic_iff)
  with Inr show ?thesis
    by (auto simp add: DownloadFolder_def split: sum.splits exec.splits prod.splits)
qed

subsection \<open>The result of a run\<close>

text \<open>
  Claim C4. Whenever a downloader made by \<open>NewDownloader\<close> returns a result for a
  listing of \<open>N\<close> objects, \<open>TotalFiles\<close> is \<open>N\<close> and \<open>SuccessfulFiles + FailedFiles\<close>
  is \<open>N\<close>; the progress values received are one for each listed object (their keys are
  the listed keys, in some order); \<open>FailedFiles\<close> is the number of those with an error and
  \<open>SuccessfulFiles\<close> the number of the others.
\<close>

theorem file_counts:
  assumes "ListObjects p prefix = Inr objects"
      and "DownloadFolder (NewDownloader p opts) prefix localDir choices elapsed disk
             = Returned (Some r) err disk' events"
  shows "TotalFiles r = int (length objects)
         \<and> SuccessfulFiles r + FailedFiles r = int (length objects)
         \<and> mset (map ProgressKey events) = mset (map Key objects)
         \<and> FailedFiles r = int (length (filter (\<lambda>e. Error e \<noteq> None) events))
         \<and> SuccessfulFiles r = int (length (filter (\<lambda>e. Error e = None) events))"
proof -
  from DownloadFolder_Returned_Some [OF assms(2)]
  have r: "r = (foldl collect emptyResult events)\<lparr>Duration := elapsed\<rparr>" by simp
  have len: "length events = length objects"
    by (rule DownloadFolder_events(3) [OF assms])
  have total: "TotalFiles r = int (length events)"
    by (simp add: r foldl_collect_TotalFiles emptyResult_def)
  have failed: "FailedFiles r = int (length (filter (\<lambda>e. Error e \<noteq> None) events))"
    by (simp add: r foldl_collect_FailedFiles emptyResult_def)
  have ok: "SuccessfulFiles r = int (length (filter (\<lambda>e. Error e = None) events))"
    by (simp add: r foldl_collect_SuccessfulFiles emptyResult_def)
  from failed ok length_filter_split [of events]
  have "SuccessfulFiles r + FailedFiles r = int (length events)" by simp
  with total failed ok len DownloadFolder_events(1) [OF assms] show ?thesis by simp
qed

theorem file_counts_witness:
  "TotalFiles resultB = int (length listingB)
   \<and> SuccessfulFiles resultB + FailedFiles resultB = int (length listingB)
   \<and> mset (map ProgressKey eventsB) = mset (map Key listingB)
   \<and> FailedFiles resultB = int (length (filter (\<lambda>e. Error e \<noteq> None) eventsB))
   \<and> SuccessfulFiles resultB = int (length (filter (\<lambda>e. Error e = None) eventsB))"
proof -
  have listing: "ListObjects providerB ''d/'' = Inr listingB"
    by (simp add: providerB_def)
  have run: "DownloadFolder (NewDownloader providerB defaultOptions) ''d/'' ''/out'' [] 7 Map.empty
               = Returned (Some resultB) None (retDisk runB) eventsB"
    using runB_returns by (simp add: runB_def)
  show ?thesis by (rule file_counts [OF listing run])
qed

text \<open>
  Claim C2, as amended. Whenever a downloader made by \<open>NewDownloader\<close> returns a result,
  \<open>TotalBytes\<close> is the sum, in \<open>int64\<close> arithmetic, of the declared sizes of all the
  listed objects: every progress value carries its object's declared size as its
  \<open>TotalBytes\<close>, and the loop over \<open>results\<close> adds it before it looks at the error.
\<close>

theorem total_bytes_all_objects:
  assumes "ListObjects p prefix = Inr objects"
      and "DownloadFolder (NewDownloader p opts) prefix localDir choices elapsed disk
             = Returned (Some r) err disk' events"
  shows "TotalBytes r = sum_list (map Size objects)
         \<and> TotalBytes r = sum_list (map ProgressTotalBytes events)"
proof -
  from DownloadFolder_Returned_Some [OF assms(2)]
  have r: "r = (foldl collect emptyResult events)\<lparr>Duration := elapsed\<rparr>" by simp
  have "TotalBytes r = sum_list (map ProgressTotalBytes events)"
    by (simp add: r foldl_collect_TotalBytes emptyResult_def)
  with DownloadFolder_events(2) [OF assms] show ?thesis by simp
qed

theorem total_bytes_all_objects_witness:
  "TotalBytes resultB = sum_list (map Size listingB)
   \<and> TotalBytes resultB = sum_list (map ProgressTotalBytes eventsB)"
proof -
  have listing: "ListObjects providerB ''d/'' = Inr listingB"
    by (simp add: providerB_def)
  have run: "DownloadFolder (NewDownloader providerB defaultOptions) ''d/'' ''/out'' [] 7 Map.empty
               = Returned (Some resultB) None (retDisk runB) eventsB"
    using runB_returns by (simp add: runB_def)
  show ?thesis by (rule total_bytes_all_objects [OF listing run])
qed

text \<open>
  Claim C2 as stated fails in scenario B: \<open>TotalBytes\<close> is 30, the sizes of the
  completed objects add up to 10.
\<close>

theorem total_bytes_completed_counterexample:
  "DownloadFolder (NewDownloader providerB defaultOptions) ''d/'' ''/out'' [] 7 Map.empty
     = Returned (Some resultB) None (retDisk runB) eventsB
   \<and> TotalBytes resultB = 30 \<and> completedBytes eventsB = 10
   \<and> TotalBytes resultB \<noteq> completedBytes eventsB"
proof -
  have "TotalBytes resultB = 30" by (simp add: resultB_def)
  moreover have "completedBytes eventsB = 10" by (simp add: completedBytes_def eventsB_def)
  ultimately show ?thesis using runB_returns by (simp add: runB_def)
qed

text \<open>
  Claim C1, as amended. When \<open>DownloadFolder\<close> returns a result in which errors are
  recorded, the error it returns with it is nil. The result is fully populated: the
  recorded errors are those of the progress values received, in the order of arrival,
  \<open>FailedFiles\<close> is their number and \<open>TotalFiles\<close> the number of progress values. It is
  the caller \<open>runClone\<close> that then returns the error carrying the number of errors.
\<close>

theorem partial_failure_nil_error:
  assumes "DownloadFolder d prefix localDir choices elapsed disk
             = Returned (Some r) err disk' events"
      and "Errors r \<noteq> []"
  shows "err = None
         \<and> Errors r = List.map_filter Error events
         \<and> FailedFiles r = int (length (Errors r))
         \<and> TotalFiles r = int (length events)
         \<and> runClone_finish (Some r) err = Some (CompletedWithErrors (length (Errors r)))"
proof -
  from DownloadFolder_Returned_Some [OF assms(1)]
  have err: "err = None" and r: "r = (foldl collect emptyResult events)\<lparr>Duration := elapsed\<rparr>"
    by simp_all
  have errors: "Errors r = List.map_filter Error events"
    by (simp add: r foldl_collect_Errors emptyResult_def)
  have "FailedFiles r = int (length (filter (\<lambda>e. Error e \<noteq> None) events))"
    by (simp add: r foldl_collect_FailedFiles emptyResult_def)
  then have failed: "FailedFiles r = int (length (Errors r))"
    by (simp add: errors List.map_filter_def)
  have total: "TotalFiles r = int (length events)"
    by (simp add: r foldl_collect_TotalFiles emptyResult_def)
  from assms(2) err have "runClone_finish (Some r) err = Some (CompletedWithErrors (length (Errors r)))"
    by (simp add: runClone_finish_def)
  with err errors failed total show ?thesis by simp
qed

theorem partial_failure_nil_error_witness:
  "Errors resultB \<noteq> []
   \<and> Errors resultB = List.map_filter Error eventsB
   \<and> FailedFiles resultB = int (length (Errors resultB))
   \<and> TotalFiles resultB = int (length eventsB)
   \<and> runClone_finish (Some resultB) None = Some (CompletedWithErrors (length (Errors resultB)))"
proof -
  have run: "DownloadFolder (NewDownloader providerB defaultOptions) ''d/'' ''/out'' [] 7 Map.empty
               = Returned (Some resultB) None (retDisk runB) eventsB"
    using runB_returns by (simp add: runB_def)
  have errors: "Errors resultB \<noteq> []" by (simp add: resultB_def)
  from partial_failure_nil_error [OF run errors] errors show ?thesis by simp
qed

text \<open>
  Claim C1 as stated fails in scenario B: one error is recorded in the result, and the
  error returned with it is nil.
\<close>

theorem partial_failure_counterexample:
  "DownloadFolder (NewDownloader providerB defaultOptions) ''d/'' ''/out'' [] 7 Map.empty
     = Returned (Some resultB) None (retDisk runB) eventsB
   \<and> Errors resultB = [RemoteError ''fetch failed'']"
  using runB_returns by (simp add: runB_def resultB_def)

subsection \<open>The file system: \<open>MkdirAll\<close>\<close>











subsection \<open>Directory markers\<close>






subsection \<open>Escaping the destination\<close>

text \<open>
  Claim C10. The mapped path is not confined to the destination. Under the prefix
  \<open>photos/\<close> and the destination \<open>/out\<close>, the key \<open>photos/../../etc/passwd\<close> maps to
  \<open>/etc/passwd\<close>, outside \<open>/out\<close>, and \<open>downloadObject\<close> creates the directory
  \<open>/etc\<close> and writes the file there. So does a key that is no longer than the prefix:
  \<open>../x\<close> under the prefix \<open>../x\<close> is written to \<open>/x\<close>.
\<close>

theorem path_escapes_root:
  "localPath ''/out'' ''photos/../../etc/passwd'' ''photos/'' = Done ''/etc/passwd''
   \<and> \<not> within ''/out'' ''/etc/passwd''
   \<and> map_exec (\<lambda>(err, disk'). (err, disk' ''/etc'', disk' ''/etc/passwd''))
        (downloadObject (NewDownloader providerEscape defaultOptions)
           (mkObject ''photos/../../etc/passwd'' 4) ''photos/'' ''/out'' diskOut)
       = Done (None, Some Directory, Some (File ''root''))
   \<and> length ''../x'' \<le> length ''../x''
   \<and> localPath ''/out'' ''../x'' ''../x'' = Done ''/x''
   \<and> \<not> within ''/out'' ''/x''
   \<and> map_exec (\<lambda>(err, disk'). (err, disk' ''/x''))
        (downloadObject (NewDownloader providerEscape defaultOptions)
           (mkObject ''../x'' 4) ''../x'' ''/out'' diskOut)
       = Done (None, Some (File ''root''))"
  by code_simp

subsection \<open>Disks that later steps only extend\<close>























subsection \<open>A second run on a listing with different local files\<close>

















end
